theory Spec2Isabelle
  imports Main "HOL-Library.Sublist"
begin

section \<open>Data model\<close>

text \<open>
  A session object as the background script builds it in \<^verbatim>\<open>startSession\<close>.
  All timestamps are whole Unix seconds (\<^verbatim>\<open>Math.floor(Date.now() / 1000)\<close>), so they
  are integers. \<^verbatim>\<open>endTimestamp\<close> is \<^verbatim>\<open>null\<close> while the session is open. The sync
  manager's \<^verbatim>\<open>archiveLocally\<close> copies a session and adds the key \<^verbatim>\<open>archivedAt\<close>; a
  session that was never archived has no such key (\<open>None\<close>).
\<close>

record session =
  url :: string
  domain :: string
  title :: string
  startTimestamp :: int
  endTimestamp :: "int option"
  durationSeconds :: int
  tabId :: int
  incognito :: bool
  archivedAt :: "int option"

text \<open>The fields of a browser tab object that the tracker reads.\<close>

record tab =
  tab_id :: int
  tab_url :: "string option"
  tab_title :: "string option"
  tab_incognito :: bool
  tab_active :: bool

record device_profile =
  dp_type :: string
  dp_name :: string
  dp_browser :: string
  dp_os :: string

text \<open>
  A configuration object. The message \<^verbatim>\<open>saveConfig\<close> and the stored configuration may
  lack any key, so every key is optional: \<open>None\<close> is a key that is absent
  (\<^verbatim>\<open>undefined\<close> when read).
\<close>

record config =
  apiEndpoint :: "string option"
  apiKey :: "string option"
  syncIntervalMinutes :: "int option"
  userId :: "string option"
  deviceProfile :: "device_profile option"
  idleDetectionEnabled :: "bool option"
  idleThresholdMinutes :: "int option"
  archiveRetentionDays :: "int option"

datatype js_error = TypeError

datatype validation = Valid | Invalid string

text \<open>The payload of \<^verbatim>\<open>buildPayload\<close>: one row per session, with the explicit field mapping.\<close>

record payload_row =
  row_url :: string
  row_domain :: string
  row_title :: string
  row_start_timestamp :: int
  row_end_timestamp :: "int option"
  row_duration_seconds :: int
  row_tab_id :: int
  row_incognito :: bool

record payload =
  p_device_id :: "string option"
  p_device_profile :: device_profile
  p_user_id :: "string option"
  p_sessions :: "payload_row list"
  p_sync_timestamp :: int

text \<open>
  Everything a handler reads from outside the extension's own state: the readings of
  \<^verbatim>\<open>Date.now()\<close> in milliseconds (one per place that reads the clock), the platform's
  local midnight, \<^verbatim>\<open>navigator.onLine\<close>, the outcome of the two HTTP requests, the
  result of the active-tab query, and the platform's URL parser.

  \<^item> \<open>rpc u\<close> is the outcome of the request to \<^verbatim>\<open>/rest/v1/rpc/is_valid_user\<close> for the
    user name \<open>u\<close>: \<open>Inl m\<close> when \<^verbatim>\<open>fetch\<close> rejects or the response is not ok (the
    message of the error that is thrown), \<open>Inr b\<close> when the response body is truthy
    (\<open>b\<close>) or not.
  \<^item> \<open>send p\<close> is the outcome of the request that \<^verbatim>\<open>sendToApi\<close> makes for the payload
    \<open>p\<close>: \<open>None\<close> for a 2xx response, \<open>Some m\<close> for the message of the error thrown.
  \<^item> \<open>activeTabs\<close> is what \<^verbatim>\<open>browser.tabs.query\<close> returns, \<open>None\<close> when it throws.
  \<^item> \<open>hostname u\<close> is \<^verbatim>\<open>new URL(u).hostname\<close>, \<open>None\<close> when the constructor throws.
\<close>

record env =
  endMs :: int
  startMs :: int
  archiveMs :: int
  pruneMs :: int
  payloadMs :: int
  statsMs :: int
  viewMs :: int
  midnightMs :: int
  onLine :: bool
  rpc :: "string \<Rightarrow> string + bool"
  send :: "payload \<Rightarrow> string option"
  activeTabs :: "tab list option"
  hostname :: "string \<Rightarrow> string option"
  isoNow :: string

text \<open>
  The state of the extension: the fields of the \<^verbatim>\<open>TrackerState\<close> singleton, the five keys
  of \<^verbatim>\<open>browser.storage.local\<close> the core uses (\<open>None\<close>: the key is not stored), and the
  two browser settings the handlers write (the period of the sync alarm and the idle
  detection interval).
\<close>

record world =
  currentSession :: "session option"
  deviceId :: "string option"
  config :: "config option"
  isIdle :: bool
  idleThresholdSeconds :: int
  pendingSessions :: "session list"
  initialized :: bool
  stored_deviceId :: "string option"
  stored_config :: "config option"
  stored_pendingSessions :: "session list option"
  stored_archive :: "session list option"
  stored_failedSyncs :: "session list option"
  syncAlarm :: "int option"
  detectionInterval :: "int option"

section \<open>Utilities\<close>

text \<open>JavaScript truthiness of an optional string: absent and empty are falsy.\<close>

definition truthy :: "string option \<Rightarrow> bool" where
  "truthy v = (case v of None \<Rightarrow> False | Some s \<Rightarrow> s \<noteq> [])"

definition excludedProtocols :: "string list" where
  "excludedProtocols =
     [''about:'', ''moz-extension:'', ''chrome:'', ''file:'', ''data:'', ''javascript:'']"

definition isTrackableUrl :: "string option \<Rightarrow> bool" where
  "isTrackableUrl u =
     (case u of None \<Rightarrow> False
      | Some s \<Rightarrow> if s = [] then False
                  else \<not> list_ex (\<lambda>protocol. prefix protocol s) excludedProtocols)"

definition extractDomain :: "env \<Rightarrow> string \<Rightarrow> string" where
  "extractDomain e u = (case hostname e u of Some h \<Rightarrow> h | None \<Rightarrow> u)"

text \<open>\<^verbatim>\<open>Math.floor(ms / 1000)\<close>: integer division rounds down, as \<^verbatim>\<open>Math.floor\<close> does.\<close>

definition getCurrentTimestamp :: "int \<Rightarrow> int" where
  "getCurrentTimestamp ms = ms div 1000"

definition getStartOfToday :: "env \<Rightarrow> int" where
  "getStartOfToday e = midnightMs e div 1000"

section \<open>Session tracker\<close>

definition savePendingSessions :: "world \<Rightarrow> world" where
  "savePendingSessions st = st\<lparr>stored_pendingSessions := Some (pendingSessions st)\<rparr>"

text \<open>
  \<^verbatim>\<open>endCurrentSession\<close>: returns at once when no session is open; otherwise stamps the
  session, pushes a copy to the pending buffer when it lasted a second or more, and
  clears the slot.
\<close>

definition endCurrentSession :: "env \<Rightarrow> world \<Rightarrow> world" where
  "endCurrentSession e st =
     (case currentSession st of
        None \<Rightarrow> st
      | Some cur \<Rightarrow>
          let now = getCurrentTimestamp (endMs e);
              cur' = cur\<lparr>endTimestamp := Some now,
                         durationSeconds := now - startTimestamp cur\<rparr>;
              st' = (if durationSeconds cur' \<ge> 1
                     then savePendingSessions
                            (st\<lparr>pendingSessions := pendingSessions st @ [cur']\<rparr>)
                     else st)
          in st'\<lparr>currentSession := None\<rparr>)"

text \<open>
  \<^verbatim>\<open>startSession\<close>. Reading \<^verbatim>\<open>TrackerState.config.idleDetectionEnabled\<close> throws a
  TypeError while the configuration is still \<^verbatim>\<open>null\<close>; the session that
  \<^verbatim>\<open>endCurrentSession\<close> closed before stays closed. The URL of a trackable tab is a
  non-empty string, so the case on \<open>tab_url\<close> only names it.
\<close>

definition startSession :: "env \<Rightarrow> tab \<Rightarrow> world \<Rightarrow> (js_error + unit) \<times> world" where
  "startSession e t st =
     (let st1 = endCurrentSession e st in
      case config st1 of
        None \<Rightarrow> (Inl TypeError, st1)
      | Some cfg \<Rightarrow>
          if idleDetectionEnabled cfg = Some True \<and> isIdle st1 then (Inr (), st1)
          else if \<not> isTrackableUrl (tab_url t) then (Inr (), st1)
          else (case tab_url t of
                  None \<Rightarrow> (Inr (), st1)
                | Some u \<Rightarrow>
                    (Inr (),
                     st1\<lparr>currentSession := Some
                       \<lparr>url = u,
                        domain = extractDomain e u,
                        title = (if truthy (tab_title t) then the (tab_title t)
                                 else ''Untitled''),
                        startTimestamp = getCurrentTimestamp (startMs e),
                        endTimestamp = None,
                        durationSeconds = 0,
                        tabId = tab_id t,
                        incognito = tab_incognito t,
                        archivedAt = None\<rparr>\<rparr>)))"

definition updateCurrentSession :: "env \<Rightarrow> tab \<Rightarrow> world \<Rightarrow> (js_error + unit) \<times> world" where
  "updateCurrentSession e t st =
     (case currentSession st of
        None \<Rightarrow> startSession e t st
      | Some cur \<Rightarrow>
          if Some (url cur) \<noteq> tab_url t
          then startSession e t (endCurrentSession e st)
          else if truthy (tab_title t) \<and> Some (title cur) \<noteq> tab_title t
          then (Inr (), st\<lparr>currentSession := Some (cur\<lparr>title := the (tab_title t)\<rparr>)\<rparr>)
          else (Inr (), st))"

text \<open>A call of one of the three tracker operations, and a sequence of such calls, each
  with the environment it runs in. A call that throws leaves the state as it was at the
  throw, and the next call runs from there.\<close>

datatype tracker_call = StartSession tab | EndCurrentSession | UpdateCurrentSession tab

fun tracker_step :: "env \<times> tracker_call \<Rightarrow> world \<Rightarrow> world" where
  "tracker_step (e, StartSession t) st = snd (startSession e t st)"
| "tracker_step (e, EndCurrentSession) st = endCurrentSession e st"
| "tracker_step (e, UpdateCurrentSession t) st = snd (updateCurrentSession e t st)"

fun tracker_run :: "(env \<times> tracker_call) list \<Rightarrow> world \<Rightarrow> world" where
  "tracker_run [] st = st"
| "tracker_run (c # cs) st = tracker_run cs (tracker_step c st)"

text \<open>The sessions of the state that are open: those among the current-session slot and
  the pending buffer whose end timestamp is still \<^verbatim>\<open>null\<close>.\<close>

definition slot :: "world \<Rightarrow> session list" where
  "slot st = (case currentSession st of None \<Rightarrow> [] | Some c \<Rightarrow> [c])"

definition open_sessions :: "world \<Rightarrow> session list" where
  "open_sessions st = filter (\<lambda>s. endTimestamp s = None) (slot st @ pendingSessions st)"

definition pending_closed :: "world \<Rightarrow> bool" where
  "pending_closed st = list_all (\<lambda>s. endTimestamp s \<noteq> None) (pendingSessions st)"

section \<open>Sync manager\<close>

text \<open>The arrays under the storage keys, read as the code does (\<^verbatim>\<open>stored.archive || []\<close>).\<close>

definition archive_of :: "world \<Rightarrow> session list" where
  "archive_of st = (case stored_archive st of None \<Rightarrow> [] | Some a \<Rightarrow> a)"

definition failed_of :: "world \<Rightarrow> session list" where
  "failed_of st = (case stored_failedSyncs st of None \<Rightarrow> [] | Some q \<Rightarrow> q)"

text \<open>
  \<^verbatim>\<open>validateUser\<close>: two fail-fast checks, then one remote call whose every failure is
  caught and returned as an invalid result with the error's message.
\<close>

definition notAuthorized :: string where
  "notAuthorized = ''User not authorized. Email dhondpratyay@gmail.com to request access.''"

definition validateUser :: "env \<Rightarrow> string option \<Rightarrow> config \<Rightarrow> validation" where
  "validateUser e uid cfg =
     (if \<not> truthy (apiEndpoint cfg) \<or> \<not> truthy (apiKey cfg)
      then Invalid ''API not configured''
      else if \<not> truthy uid then Invalid ''User ID not set''
      else (case rpc e (the uid) of
              Inl m \<Rightarrow> Invalid m
            | Inr isValid \<Rightarrow> if isValid then Valid else Invalid notAuthorized))"

text \<open>\<^verbatim>\<open>archiveLocally\<close>: every session is copied, stamped, and pushed to the archive. The
  clock is read inside the \<^verbatim>\<open>map\<close> callback; the readings of one call are taken to fall
  into the same second.\<close>

definition archiveLocally :: "env \<Rightarrow> session list \<Rightarrow> world \<Rightarrow> world" where
  "archiveLocally e sessions st =
     (let archive = archive_of st;
          archivedSessions =
            map (\<lambda>s. s\<lparr>archivedAt := Some (archiveMs e div 1000)\<rparr>) sessions
      in st\<lparr>stored_archive := Some (archive @ archivedSessions)\<rparr>)"

text \<open>\<^verbatim>\<open>queueFailedSync\<close>: the sessions whose start timestamp is not in the queue yet are
  pushed to it. The set of known timestamps is built once, from the stored queue.\<close>

definition queueFailedSync :: "session list \<Rightarrow> world \<Rightarrow> world" where
  "queueFailedSync sessions st =
     (let failedSyncs = failed_of st;
          existingTimestamps = map startTimestamp failedSyncs;
          newSessions =
            filter (\<lambda>s. startTimestamp s \<notin> set existingTimestamps) sessions
      in st\<lparr>stored_failedSyncs := Some (failedSyncs @ newSessions)\<rparr>)"

text \<open>
  \<^verbatim>\<open>pruneArchive\<close>. The parameter defaults to 30 when it is \<^verbatim>\<open>undefined\<close>. The filter
  keeps an entry when \<^verbatim>\<open>archivedAt > cutoff || startTimestamp > cutoff\<close>; a missing
  \<^verbatim>\<open>archivedAt\<close> compares false. Storage is written only when an entry was removed.
\<close>

definition js_gt :: "int option \<Rightarrow> int \<Rightarrow> bool" where
  "js_gt v c = (case v of None \<Rightarrow> False | Some a \<Rightarrow> a > c)"

definition cutoffTimestamp :: "env \<Rightarrow> int option \<Rightarrow> int" where
  "cutoffTimestamp e retentionDays =
     pruneMs e div 1000 -
       ((case retentionDays of None \<Rightarrow> 30 | Some d \<Rightarrow> d) * 24 * 60 * 60)"

definition pruneArchive :: "env \<Rightarrow> int option \<Rightarrow> world \<Rightarrow> world" where
  "pruneArchive e retentionDays st =
     (let archive = archive_of st;
          cutoff = cutoffTimestamp e retentionDays;
          prunedArchive =
            filter (\<lambda>s. js_gt (archivedAt s) cutoff \<or> startTimestamp s > cutoff) archive;
          removed = int (length archive) - int (length prunedArchive)
      in if removed > 0 then st\<lparr>stored_archive := Some prunedArchive\<rparr> else st)"

text \<open>\<^verbatim>\<open>buildPayload\<close> reads \<^verbatim>\<open>config.deviceProfile.type\<close>, which throws a TypeError
  when the configuration has no device profile.\<close>

definition buildPayload ::
  "env \<Rightarrow> session list \<Rightarrow> string option \<Rightarrow> config \<Rightarrow> js_error + payload" where
  "buildPayload e sessions dev cfg =
     (case deviceProfile cfg of
        None \<Rightarrow> Inl TypeError
      | Some dp \<Rightarrow> Inr
          \<lparr>p_device_id = dev,
           p_device_profile =
             \<lparr>dp_type = dp_type dp, dp_name = dp_name dp,
              dp_browser = dp_browser dp, dp_os = dp_os dp\<rparr>,
           p_user_id = userId cfg,
           p_sessions =
             map (\<lambda>s. \<lparr>row_url = url s, row_domain = domain s, row_title = title s,
                        row_start_timestamp = startTimestamp s,
                        row_end_timestamp = endTimestamp s,
                        row_duration_seconds = durationSeconds s,
                        row_tab_id = tabId s, row_incognito = incognito s\<rparr>) sessions,
           p_sync_timestamp = payloadMs e div 1000\<rparr>)"

record sync_result =
  success :: bool
  synced :: "nat option"
  archived :: "nat option"
  queued :: "nat option"
  error :: "string option"

definition no_result :: sync_result where
  "no_result = \<lparr>success = False, synced = None, archived = None, queued = None, error = None\<rparr>"

text \<open>
  \<^verbatim>\<open>sync\<close>. The result is the object the promise resolves to, or the error it rejects
  with; the second component is the state afterwards. The two places that can throw
  outside the \<^verbatim>\<open>try\<close> block (reading a key of a \<^verbatim>\<open>null\<close> configuration, and
  \<^verbatim>\<open>buildPayload\<close>) come before any write. Inside the block, an error of \<^verbatim>\<open>sendToApi\<close>
  is caught and the sessions are queued. The storage calls themselves are taken to
  succeed.
\<close>

definition sync ::
  "env \<Rightarrow> session list \<Rightarrow> string option \<Rightarrow> config option \<Rightarrow> world
     \<Rightarrow> (js_error + sync_result) \<times> world" where
  "sync e sessions dev config0 st =
     (if length sessions = 0 then (Inr (no_result\<lparr>success := True, synced := Some 0\<rparr>), st)
      else case config0 of
        None \<Rightarrow> (Inl TypeError, st)
      | Some cfg \<Rightarrow>
          if \<not> truthy (apiEndpoint cfg) \<or> \<not> truthy (apiKey cfg)
          then (Inr (no_result\<lparr>success := True, synced := Some 0,
                               archived := Some (length sessions)\<rparr>),
                archiveLocally e sessions st)
          else (case validateUser e (userId cfg) cfg of
             Invalid m \<Rightarrow>
               (Inr (no_result\<lparr>success := False, error := Some m,
                               archived := Some (length sessions)\<rparr>),
                archiveLocally e sessions st)
           | Valid \<Rightarrow>
               if \<not> onLine e
               then (Inr (no_result\<lparr>success := False, error := Some ''offline'',
                                    queued := Some (length sessions)\<rparr>),
                     queueFailedSync sessions st)
               else (case buildPayload e sessions dev cfg of
                  Inl err \<Rightarrow> (Inl err, st)
                | Inr p \<Rightarrow>
                    (case send e p of
                       None \<Rightarrow>
                         (Inr (no_result\<lparr>success := True,
                                         synced := Some (length sessions)\<rparr>),
                          pruneArchive e (archiveRetentionDays cfg)
                            ((archiveLocally e sessions st)\<lparr>stored_failedSyncs := None\<rparr>))
                     | Some m \<Rightarrow>
                         (Inr (no_result\<lparr>success := False, error := Some m,
                                         queued := Some (length sessions)\<rparr>),
                          queueFailedSync sessions st)))))"

text \<open>
  \<^verbatim>\<open>performSync\<close>: closes the open session so that it is part of the batch, hands the
  pending buffer to \<^verbatim>\<open>sync\<close>, empties the buffer only when the result reports success,
  and reopens a session on the tab that was active. The handler is taken to run without
  another handler in between.
\<close>

definition performSync :: "env \<Rightarrow> world \<Rightarrow> (js_error + sync_result) \<times> world" where
  "performSync e st =
     (let hadActiveSession = (currentSession st \<noteq> None);
          activeTabInfo =
            (if hadActiveSession
             then (case activeTabs e of
                     None \<Rightarrow> None
                   | Some tabs \<Rightarrow> (case tabs of [] \<Rightarrow> None | t # _ \<Rightarrow> Some t))
             else None);
          st1 = (if hadActiveSession then endCurrentSession e st else st)
      in case sync e (pendingSessions st1) (deviceId st1) (config st1) st1 of
           (Inl err, st2) \<Rightarrow> (Inl err, st2)
         | (Inr result, st2) \<Rightarrow>
             let st3 = (if success result
                        then savePendingSessions (st2\<lparr>pendingSessions := []\<rparr>)
                        else st2)
             in (case activeTabInfo of
                   None \<Rightarrow> (Inr result, st3)
                 | Some t \<Rightarrow>
                     if hadActiveSession \<and> isTrackableUrl (tab_url t)
                     then (case startSession e t st3 of
                             (Inl err, st4) \<Rightarrow> (Inl err, st4)
                           | (Inr _, st4) \<Rightarrow> (Inr result, st4))
                     else (Inr result, st3)))"

section \<open>Statistics\<close>

text \<open>
  The totals, the pending count and the live view of \<^verbatim>\<open>getStats\<close>. The two \<^verbatim>\<open>reduce\<close>
  calls are left folds from 0. The per-domain table \<^verbatim>\<open>sites\<close> of the returned object
  is not part of this model.
\<close>

record stats =
  todayTotal :: int
  allTimeTotal :: int
  pendingCount :: nat
  currentSessionView :: "(string \<times> int) option"

definition allSessions :: "env \<Rightarrow> world \<Rightarrow> session list" where
  "allSessions e st =
     (let archivedSessions = archive_of st;
          combined = pendingSessions st @ archivedSessions
      in case currentSession st of
           None \<Rightarrow> combined
         | Some cur \<Rightarrow>
             let now = getCurrentTimestamp (statsMs e)
             in combined @ [cur\<lparr>endTimestamp := Some now,
                                 durationSeconds := now - startTimestamp cur\<rparr>])"

definition getStats :: "env \<Rightarrow> world \<Rightarrow> stats" where
  "getStats e st =
     (let todayStart = getStartOfToday e;
          todaySessions = filter (\<lambda>s. startTimestamp s \<ge> todayStart) (allSessions e st)
      in \<lparr>todayTotal = foldl (\<lambda>sum s. sum + durationSeconds s) 0 todaySessions,
          allTimeTotal = foldl (\<lambda>sum s. sum + durationSeconds s) 0 (allSessions e st),
          pendingCount = length (pendingSessions st),
          currentSessionView =
            (case currentSession st of
               None \<Rightarrow> None
             | Some cur \<Rightarrow>
                 Some (domain cur, getCurrentTimestamp (viewMs e) - startTimestamp cur))\<rparr>)"

definition getCurrentSessionInfo :: "env \<Rightarrow> world \<Rightarrow> session option" where
  "getCurrentSessionInfo e st =
     (case currentSession st of
        None \<Rightarrow> None
      | Some cur \<Rightarrow>
          Some (cur\<lparr>durationSeconds :=
                       getCurrentTimestamp (statsMs e) - startTimestamp cur\<rparr>))"

record export =
  ex_deviceId :: "string option"
  ex_config :: "config option"
  ex_sessions :: "session list"
  ex_exportedAt :: string

definition exportData :: "env \<Rightarrow> world \<Rightarrow> export" where
  "exportData e st =
     \<lparr>ex_deviceId = deviceId st, ex_config = config st,
      ex_sessions = pendingSessions st @ archive_of st, ex_exportedAt = isoNow e\<rparr>"

section \<open>Message handler\<close>

text \<open>Object spread \<^verbatim>\<open>{ ...a, ...b }\<close> on configurations: a key of \<open>b\<close> wins, a key
  that only \<open>a\<close> has is kept. Spreading \<^verbatim>\<open>null\<close> adds no key.\<close>

definition pick :: "'a option \<Rightarrow> 'a option \<Rightarrow> 'a option" where
  "pick a b = (case b of Some v \<Rightarrow> Some v | None \<Rightarrow> a)"

definition no_config :: config where
  "no_config =
     \<lparr>apiEndpoint = None, apiKey = None, syncIntervalMinutes = None, userId = None,
      deviceProfile = None, idleDetectionEnabled = None, idleThresholdMinutes = None,
      archiveRetentionDays = None\<rparr>"

definition spread :: "config option \<Rightarrow> config \<Rightarrow> config" where
  "spread a0 b =
     (let a = (case a0 of None \<Rightarrow> no_config | Some c \<Rightarrow> c)
      in \<lparr>apiEndpoint = pick (apiEndpoint a) (apiEndpoint b),
          apiKey = pick (apiKey a) (apiKey b),
          syncIntervalMinutes = pick (syncIntervalMinutes a) (syncIntervalMinutes b),
          userId = pick (userId a) (userId b),
          deviceProfile = pick (deviceProfile a) (deviceProfile b),
          idleDetectionEnabled = pick (idleDetectionEnabled a) (idleDetectionEnabled b),
          idleThresholdMinutes = pick (idleThresholdMinutes a) (idleThresholdMinutes b),
          archiveRetentionDays = pick (archiveRetentionDays a) (archiveRetentionDays b)\<rparr>)"

text \<open>\<^verbatim>\<open>setupSyncAlarm\<close> replaces the alarm; its period is
  \<^verbatim>\<open>config.syncIntervalMinutes || 180\<close>. \<^verbatim>\<open>setupIdleDetection\<close> sets the detection
  interval when idle detection is enabled. Both read \<^verbatim>\<open>TrackerState.config\<close>.\<close>

definition setupSyncAlarm :: "world \<Rightarrow> (js_error + unit) \<times> world" where
  "setupSyncAlarm st =
     (case config st of
        None \<Rightarrow> (Inl TypeError, st\<lparr>syncAlarm := None\<rparr>)
      | Some cfg \<Rightarrow>
          let intervalMinutes =
                (case syncIntervalMinutes cfg of
                   None \<Rightarrow> 180
                 | Some n \<Rightarrow> if n = 0 then 180 else n)
          in (Inr (), st\<lparr>syncAlarm := Some intervalMinutes\<rparr>))"

definition setupIdleDetection :: "world \<Rightarrow> (js_error + unit) \<times> world" where
  "setupIdleDetection st =
     (case config st of
        None \<Rightarrow> (Inl TypeError, st)
      | Some cfg \<Rightarrow>
          if idleDetectionEnabled cfg = Some True
          then (Inr (), st\<lparr>detectionInterval := Some (idleThresholdSeconds st)\<rparr>)
          else (Inr (), st))"

datatype message =
    GetStats
  | GetCurrentSession
  | SyncNow
  | ValidateUser "string option" config
  | GetConfig
  | SaveConfig config
  | ClearData
  | ExportData
  | UnknownAction

datatype response =
    StatsReply stats
  | SessionReply "session option"
  | SyncReply sync_result
  | ValidationReply validation
  | ConfigReply "config option" "string option"
  | SuccessReply
  | ExportReply export
  | ErrorReply string

text \<open>The listener of \<^verbatim>\<open>browser.runtime.onMessage\<close>: what it answers (or the error its
  promise rejects with) and the state afterwards.\<close>

definition onMessage :: "env \<Rightarrow> message \<Rightarrow> world \<Rightarrow> (js_error + response) \<times> world" where
  "onMessage e m st =
     (case m of
        GetStats \<Rightarrow> (Inr (StatsReply (getStats e st)), st)
      | GetCurrentSession \<Rightarrow> (Inr (SessionReply (getCurrentSessionInfo e st)), st)
      | SyncNow \<Rightarrow>
          (case performSync e st of
             (Inl err, st') \<Rightarrow> (Inl err, st')
           | (Inr r, st') \<Rightarrow> (Inr (SyncReply r), st'))
      | ValidateUser uid cfg \<Rightarrow> (Inr (ValidationReply (validateUser e uid cfg)), st)
      | GetConfig \<Rightarrow> (Inr (ConfigReply (config st) (deviceId st)), st)
      | SaveConfig c \<Rightarrow>
          (let st1 = st\<lparr>config := Some (spread (config st) c)\<rparr>;
               st2 = st1\<lparr>stored_config := config st1\<rparr>
           in case setupSyncAlarm st2 of
                (Inl err, st3) \<Rightarrow> (Inl err, st3)
              | (Inr _, st3) \<Rightarrow>
                  (case setupIdleDetection st3 of
                     (Inl err, st4) \<Rightarrow> (Inl err, st4)
                   | (Inr _, st4) \<Rightarrow> (Inr SuccessReply, st4)))
      | ClearData \<Rightarrow>
          (let st1 = savePendingSessions (st\<lparr>pendingSessions := []\<rparr>)
           in (Inr SuccessReply, st1\<lparr>stored_archive := None, stored_failedSyncs := None\<rparr>))
      | ExportData \<Rightarrow> (Inr (ExportReply (exportData e st)), st)
      | UnknownAction \<Rightarrow> (Inr (ErrorReply ''Unknown action''), st))"

section \<open>Notions the properties are stated with\<close>

text \<open>A sequence of \<^verbatim>\<open>queueFailedSync\<close> calls, one per batch.\<close>

fun queue_run :: "session list list \<Rightarrow> world \<Rightarrow> world" where
  "queue_run [] st = st"
| "queue_run (b # bs) st = queue_run bs (queueFailedSync b st)"

text \<open>What identifies a session: its start timestamp, its URL and its tab.\<close>

definition session_key :: "session \<Rightarrow> int \<times> string \<times> int" where
  "session_key s = (startTimestamp s, url s, tabId s)"

text \<open>The copy of a session that \<^verbatim>\<open>archiveLocally\<close> stores at a given clock reading.\<close>

definition stamped :: "env \<Rightarrow> session \<Rightarrow> session" where
  "stamped e s = s\<lparr>archivedAt := Some (archiveMs e div 1000)\<rparr>"

text \<open>An archive entry neither of whose timestamps is more recent than the cutoff. An entry
  without \<^verbatim>\<open>archivedAt\<close> has no archive time that could be more recent.\<close>

definition both_at_or_before :: "int \<Rightarrow> session \<Rightarrow> bool" where
  "both_at_or_before c s =
     ((case archivedAt s of None \<Rightarrow> True | Some a \<Rightarrow> a \<le> c) \<and> startTimestamp s \<le> c)"

text \<open>The open session closed as of the clock reading of \<^verbatim>\<open>getStats\<close>, if there is one.\<close>

definition live_copy :: "env \<Rightarrow> world \<Rightarrow> session list" where
  "live_copy e st =
     (case currentSession st of
        None \<Rightarrow> []
      | Some cur \<Rightarrow>
          [cur\<lparr>endTimestamp := Some (statsMs e div 1000),
               durationSeconds := statsMs e div 1000 - startTimestamp cur\<rparr>])"

text \<open>A configuration object that defines every key.\<close>

definition complete_config :: "config \<Rightarrow> bool" where
  "complete_config c =
     (apiEndpoint c \<noteq> None \<and> apiKey c \<noteq> None \<and> syncIntervalMinutes c \<noteq> None \<and>
      userId c \<noteq> None \<and> deviceProfile c \<noteq> None \<and> idleDetectionEnabled c \<noteq> None \<and>
      idleThresholdMinutes c \<noteq> None \<and> archiveRetentionDays c \<noteq> None)"

section \<open>Example inputs\<close>

text \<open>A configured installation with an allowlisted user, a closed visit, two tabs, and an
  environment in which the backend accepts everything but the browser is offline.\<close>

definition example_config :: config where
  "example_config =
     \<lparr>apiEndpoint = Some ''https://db.example.co'', apiKey = Some ''anon-key'',
      syncIntervalMinutes = Some 180, userId = Some ''user@example.com'',
      deviceProfile = Some \<lparr>dp_type = ''laptop'', dp_name = ''work'',
                            dp_browser = ''Firefox'', dp_os = ''Linux''\<rparr>,
      idleDetectionEnabled = Some False, idleThresholdMinutes = Some 5,
      archiveRetentionDays = Some 30\<rparr>"

definition example_env :: env where
  "example_env =
     \<lparr>endMs = 165000, startMs = 165000, archiveMs = 200000, pruneMs = 200000,
      payloadMs = 200000, statsMs = 200000, viewMs = 200000, midnightMs = 150000,
      onLine = False, rpc = (\<lambda>u. Inr True), send = (\<lambda>p. None),
      activeTabs = Some [], hostname = (\<lambda>u. None), isoNow = ''1970-01-01T00:03:20.000Z''\<rparr>"

definition fresh_world :: world where
  "fresh_world =
     \<lparr>currentSession = None, deviceId = Some ''device-1'', config = Some example_config,
      isIdle = False, idleThresholdSeconds = 300, pendingSessions = [], initialized = True,
      stored_deviceId = Some ''device-1'', stored_config = None,
      stored_pendingSessions = None, stored_archive = None, stored_failedSyncs = None,
      syncAlarm = Some 180, detectionInterval = None\<rparr>"

definition visit :: "string \<Rightarrow> int \<Rightarrow> int \<Rightarrow> session" where
  "visit u t0 t1 =
     \<lparr>url = u, domain = u, title = ''Page'', startTimestamp = t0,
      endTimestamp = Some t1, durationSeconds = t1 - t0, tabId = 1, incognito = False,
      archivedAt = None\<rparr>"

definition tab_on :: "string \<Rightarrow> tab" where
  "tab_on u =
     \<lparr>tab_id = 1, tab_url = Some u, tab_title = Some ''Page'', tab_incognito = False,
      tab_active = True\<rparr>"

definition example_visit :: session where
  "example_visit = visit ''https://a.example/'' 100 165"

text \<open>A visit with the start timestamp of \<open>example_visit\<close> on another URL.\<close>

definition other_visit :: session where
  "other_visit = visit ''https://b.example/'' 100 130"

definition pending_world :: world where
  "pending_world =
     fresh_world\<lparr>pendingSessions := [example_visit],
                 stored_pendingSessions := Some [example_visit]\<rparr>"

text \<open>Endpoint and credential are set, the user identity is still the default empty
  string.\<close>

definition unvalidated_config :: config where
  "unvalidated_config = example_config\<lparr>userId := Some []\<rparr>"

definition unvalidated_world :: world where
  "unvalidated_world = pending_world\<lparr>config := Some unvalidated_config\<rparr>"

text \<open>A clock reading of 3000000 seconds: with 30 days of retention the cutoff is
  408000. The first entry was archived at exactly that second.\<close>

definition prune_env :: env where
  "prune_env = example_env\<lparr>pruneMs := 3000000000\<rparr>"

definition boundary_entry :: session where
  "boundary_entry =
     (visit ''https://a.example/'' 407000 407060)\<lparr>archivedAt := Some 408000\<rparr>"

definition recent_entry :: session where
  "recent_entry =
     (visit ''https://b.example/'' 407000 407060)\<lparr>archivedAt := Some 2999000\<rparr>"

definition archive_world :: world where
  "archive_world = fresh_world\<lparr>stored_archive := Some [boundary_entry, recent_entry]\<rparr>"

text \<open>A \<^verbatim>\<open>saveConfig\<close> message that carries one key only.\<close>

definition partial_config :: config where
  "partial_config = no_config\<lparr>userId := Some ''other@example.com''\<rparr>"

text \<open>A visit of 65 seconds, a navigation to another URL, and a close within the same
  second.\<close>

definition example_calls :: "(env \<times> tracker_call) list" where
  "example_calls =
     [(example_env\<lparr>startMs := 100000\<rparr>, StartSession (tab_on ''https://a.example/'')),
      (example_env, UpdateCurrentSession (tab_on ''https://b.example/'')),
      (example_env\<lparr>endMs := 165400\<rparr>, EndCurrentSession)]"

section \<open>Lemmas about the tracker operations\<close>

lemma endCurrentSession_no_open:
  "currentSession st = None \<Longrightarrow> endCurrentSession e st = st"
  by (simp add: endCurrentSession_def)

lemma endCurrentSession_clears: "currentSession (endCurrentSession e st) = None"
  by (simp add: endCurrentSession_def savePendingSessions_def Let_def split: option.splits)

lemma endCurrentSession_pending_closed:
  "pending_closed st \<Longrightarrow> pending_closed (endCurrentSession e st)"
  by (simp add: endCurrentSession_def savePendingSessions_def pending_closed_def Let_def
      split: option.splits)

lemma endCurrentSession_config: "config (endCurrentSession e st) = config st"
  by (simp add: endCurrentSession_def savePendingSessions_def Let_def split: option.splits)

lemma startSession_pending:
  "pendingSessions (snd (startSession e t st)) = pendingSessions (endCurrentSession e st)"
  by (simp add: startSession_def Let_def split: option.splits)

lemma startSession_pending_closed:
  "pending_closed st \<Longrightarrow> pending_closed (snd (startSession e t st))"
  using endCurrentSession_pending_closed [of st e]
  by (simp add: pending_closed_def startSession_pending)

lemma updateCurrentSession_pending_closed:
  assumes "pending_closed st"
  shows "pending_closed (snd (updateCurrentSession e t st))"
proof (cases "currentSession st")
  case None
  then show ?thesis
    using assms by (simp add: updateCurrentSession_def startSession_pending_closed)
next
  case (Some cur)
  have "pending_closed (snd (startSession e t (endCurrentSession e st)))"
    using assms by (intro startSession_pending_closed endCurrentSession_pending_closed)
  moreover have "pending_closed (st\<lparr>currentSession := Some (cur\<lparr>title := the (tab_title t)\<rparr>)\<rparr>)"
    using assms by (simp add: pending_closed_def)
  ultimately show ?thesis
    using Some assms by (simp add: updateCurrentSession_def)
qed

lemma tracker_step_pending_closed:
  "pending_closed st \<Longrightarrow> pending_closed (tracker_step c st)"
proof (cases c)
  case (Pair e k)
  assume "pending_closed st"
  then show ?thesis
    unfolding Pair
    by (cases k)
      (simp_all add: startSession_pending_closed endCurrentSession_pending_closed
        updateCurrentSession_pending_closed)
qed

lemma tracker_run_pending_closed:
  "pending_closed st \<Longrightarrow> pending_closed (tracker_run cs st)"
  by (induction cs arbitrary: st) (simp_all add: tracker_step_pending_closed)

lemma open_sessions_bound:
  assumes "pending_closed st"
  shows "length (open_sessions st) \<le> 1"
proof -
  have "filter (\<lambda>s. endTimestamp s = None) (pendingSessions st) = []"
    using assms by (simp add: pending_closed_def filter_empty_conv list_all_iff)
  then have "open_sessions st = filter (\<lambda>s. endTimestamp s = None) (slot st)"
    by (simp add: open_sessions_def)
  also have "length \<dots> \<le> length (slot st)"
    by (rule length_filter_le)
  also have "\<dots> \<le> 1"
    by (simp add: slot_def split: option.splits)
  finally show ?thesis .
qed

lemma foldl_add_duration:
  "foldl (\<lambda>sum s. sum + durationSeconds s) a xs = a + sum_list (map durationSeconds xs)"
  by (induction xs arbitrary: a) simp_all

section \<open>Lemmas about the sync manager\<close>

lemma archive_of_archiveLocally:
  "archive_of (archiveLocally e sessions st) = archive_of st @ map (stamped e) sessions"
  by (simp add: archiveLocally_def archive_of_def stamped_def Let_def)

lemma failed_of_queueFailedSync:
  "failed_of (queueFailedSync sessions st) =
     failed_of st @
       filter (\<lambda>s. startTimestamp s \<notin> startTimestamp ` set (failed_of st)) sessions"
  by (simp add: queueFailedSync_def failed_of_def Let_def)

lemma queueFailedSync_frame:
  "pendingSessions (queueFailedSync sessions st) = pendingSessions st"
  "stored_pendingSessions (queueFailedSync sessions st) = stored_pendingSessions st"
  "archive_of (queueFailedSync sessions st) = archive_of st"
  "currentSession (queueFailedSync sessions st) = currentSession st"
  "config (queueFailedSync sessions st) = config st"
  by (simp_all add: queueFailedSync_def archive_of_def Let_def)

lemma archiveLocally_frame:
  "pendingSessions (archiveLocally e sessions st) = pendingSessions st"
  "failed_of (archiveLocally e sessions st) = failed_of st"
  "currentSession (archiveLocally e sessions st) = currentSession st"
  "config (archiveLocally e sessions st) = config st"
  by (simp_all add: archiveLocally_def failed_of_def Let_def)

lemma sync_failure_cases:
  assumes "sync e sessions dev c st = (Inr r, st')" and "\<not> success r"
  shows "st' = archiveLocally e sessions st \<or> st' = queueFailedSync sessions st"
  using assms
  by (auto simp: sync_def no_result_def
      split: if_splits option.splits validation.splits sum.splits)

lemma sync_offline:
  assumes "sessions \<noteq> []" and "truthy (apiEndpoint cfg)" and "truthy (apiKey cfg)"
    and "validateUser e (userId cfg) cfg = Valid" and "\<not> onLine e"
  shows "sync e sessions dev (Some cfg) st =
           (Inr (no_result\<lparr>success := False, error := Some ''offline'',
                            queued := Some (length sessions)\<rparr>),
            queueFailedSync sessions st)"
  using assms by (simp add: sync_def)

lemma distinct_queueFailedSync:
  assumes "distinct (map startTimestamp (failed_of st))"
    and "distinct (map startTimestamp b)"
  shows "distinct (map startTimestamp (failed_of (queueFailedSync b st)))"
proof -
  let ?fresh = "filter (\<lambda>s. startTimestamp s \<notin> startTimestamp ` set (failed_of st)) b"
  have "distinct (map startTimestamp ?fresh)"
    using assms(2) by (rule distinct_map_filter)
  moreover have "startTimestamp ` set (failed_of st) \<inter> startTimestamp ` set ?fresh = {}"
    by (auto simp: image_iff)
  ultimately show ?thesis
    using assms(1) by (simp add: failed_of_queueFailedSync)
qed

lemma distinct_queue_run:
  assumes "distinct (map startTimestamp (failed_of st))"
    and "list_all (\<lambda>b. distinct (map startTimestamp b)) batches"
  shows "distinct (map startTimestamp (failed_of (queue_run batches st)))"
  using assms
  by (induction batches arbitrary: st) (simp_all add: distinct_queueFailedSync)

lemma archive_of_pruneArchive:
  "archive_of (pruneArchive e rd st) =
     filter (\<lambda>s. js_gt (archivedAt s) (cutoffTimestamp e rd) \<or>
                  startTimestamp s > cutoffTimestamp e rd) (archive_of st)"
proof -
  let ?keep = "\<lambda>s. js_gt (archivedAt s) (cutoffTimestamp e rd) \<or>
                  startTimestamp s > cutoffTimestamp e rd"
  show ?thesis
  proof (cases "length (filter ?keep (archive_of st)) < length (archive_of st)")
    case True
    then show ?thesis
      by (simp add: pruneArchive_def Let_def archive_of_def)
  next
    case False
    then have "length (filter ?keep (archive_of st)) = length (archive_of st)"
      using length_filter_le [of ?keep "archive_of st"] by linarith
    then have same: "filter ?keep (archive_of st) = archive_of st"
      by (metis filter_True length_filter_less linorder_neq_iff)
    have "pruneArchive e rd st = st"
      using False by (simp add: pruneArchive_def Let_def)
    with same show ?thesis by simp
  qed
qed

lemma keep_iff_not_expired:
  "(js_gt (archivedAt s) c \<or> startTimestamp s > c) = (\<not> both_at_or_before c s)"
  by (auto simp: js_gt_def both_at_or_before_def split: option.splits)

lemma startSession_configured:
  "config st = Some c \<Longrightarrow> fst (startSession e t st) = Inr ()"
  by (simp add: startSession_def endCurrentSession_config Let_def split: option.splits)

lemma endCurrentSession_frame:
  "deviceId (endCurrentSession e st) = deviceId st"
  "stored_failedSyncs (endCurrentSession e st) = stored_failedSyncs st"
  "stored_archive (endCurrentSession e st) = stored_archive st"
  by (simp_all add: endCurrentSession_def savePendingSessions_def Let_def split: option.splits)

lemma performSync_failure:
  assumes "config st = Some cfg"
    and "sync e (pendingSessions (endCurrentSession e st)) (deviceId st) (Some cfg)
           (endCurrentSession e st) = (Inr r, st')"
    and "\<not> success r"
  shows "fst (performSync e st) = Inr r \<and>
         pendingSessions (snd (performSync e st)) = pendingSessions (endCurrentSession e st)"
proof -
  let ?st1 = "endCurrentSession e st"
  have st1: "(if currentSession st \<noteq> None then ?st1 else st) = ?st1"
    by (simp add: endCurrentSession_no_open)
  from sync_failure_cases [OF assms(2,3)]
  have frame: "pendingSessions st' = pendingSessions ?st1 \<and>
               currentSession st' = None \<and> config st' = Some cfg"
    using assms(1)
    by (auto simp: queueFailedSync_frame archiveLocally_frame endCurrentSession_clears
        endCurrentSession_config)
  have restart: "fst (startSession e t st') = Inr () \<and>
                 pendingSessions (snd (startSession e t st')) = pendingSessions ?st1" for t
    using frame
    by (simp add: startSession_configured startSession_pending endCurrentSession_no_open)
  have no_throw: "startSession e t st' = (Inl err, x) \<Longrightarrow> False" for t err x
    using restart [of t] by simp
  have kept: "startSession e t st' = (a, x) \<Longrightarrow>
              pendingSessions x = pendingSessions ?st1" for t a x
    using restart [of t] by simp
  show ?thesis
    using assms frame
    unfolding performSync_def Let_def st1
    by (auto simp: endCurrentSession_config endCurrentSession_frame
        split: option.splits list.splits prod.splits sum.splits
        dest: no_throw kept)
qed

section \<open>The session tracker\<close>

text \<open>
  Claim C6. Whatever sequence of \<^verbatim>\<open>startSession\<close>, \<^verbatim>\<open>endCurrentSession\<close> and
  \<^verbatim>\<open>updateCurrentSession\<close> calls runs from a state whose pending buffer holds closed
  sessions only, at most one session of the state is open afterwards (an open session
  can only sit in the single current-session slot), and \<^verbatim>\<open>endCurrentSession\<close> in a
  state without an open session returns that state unchanged.
\<close>

theorem C6_at_most_one_open_session:
  assumes "pending_closed st"
  shows "length (open_sessions (tracker_run cs st)) \<le> 1 \<and>
         (currentSession w = None \<longrightarrow> endCurrentSession e w = w)"
proof -
  have closed: "pending_closed (tracker_run cs st)"
    using assms by (rule tracker_run_pending_closed)
  have "length (open_sessions (tracker_run cs st)) \<le> 1"
    using closed by (rule open_sessions_bound)
  then show ?thesis
    by (simp add: endCurrentSession_no_open)
qed

theorem C6_witness:
  "pending_closed fresh_world \<and>
   pendingSessions (tracker_run example_calls fresh_world) = [example_visit] \<and>
   length (open_sessions (tracker_run example_calls fresh_world)) \<le> 1 \<and>
   endCurrentSession example_env fresh_world = fresh_world"
proof -
  have closed: "pending_closed fresh_world"
    by (simp add: pending_closed_def fresh_world_def)
  have none: "currentSession fresh_world = None"
    by (simp add: fresh_world_def)
  have run: "pendingSessions (tracker_run example_calls fresh_world) = [example_visit]"
    by (simp add: example_calls_def fresh_world_def example_env_def example_config_def
        tab_on_def example_visit_def visit_def startSession_def updateCurrentSession_def
        endCurrentSession_def savePendingSessions_def isTrackableUrl_def
        excludedProtocols_def extractDomain_def getCurrentTimestamp_def truthy_def Let_def)
  from C6_at_most_one_open_session [OF closed, of example_calls fresh_world example_env]
  show ?thesis using closed none run by simp
qed

text \<open>
  Claim C7. When a session is open, \<^verbatim>\<open>endCurrentSession\<close> always clears the slot. With
  \<open>now\<close> the clock reading in whole seconds, the copy of the session with end timestamp
  \<open>now\<close> and duration \<open>now - start\<close> is appended to the pending buffer, and the buffer
  persisted, exactly when that duration is at least one second; otherwise the buffer and
  its stored copy stay as they were.
\<close>

theorem C7_endCurrentSession_closes:
  assumes "currentSession st = Some cur"
  shows "currentSession (endCurrentSession e st) = None \<and>
         (if 1 \<le> endMs e div 1000 - startTimestamp cur
          then pendingSessions (endCurrentSession e st) =
                 pendingSessions st @
                   [cur\<lparr>endTimestamp := Some (endMs e div 1000),
                        durationSeconds := endMs e div 1000 - startTimestamp cur\<rparr>] \<and>
               stored_pendingSessions (endCurrentSession e st) =
                 Some (pendingSessions (endCurrentSession e st))
          else pendingSessions (endCurrentSession e st) = pendingSessions st \<and>
               stored_pendingSessions (endCurrentSession e st) = stored_pendingSessions st)"
  using assms
  by (simp add: endCurrentSession_def savePendingSessions_def getCurrentTimestamp_def Let_def)

theorem C7_witness:
  "currentSession (fresh_world\<lparr>currentSession := Some (example_visit\<lparr>endTimestamp := None\<rparr>)\<rparr>)
     = Some (example_visit\<lparr>endTimestamp := None\<rparr>) \<and>
   pendingSessions
     (endCurrentSession example_env
        (fresh_world\<lparr>currentSession := Some (example_visit\<lparr>endTimestamp := None\<rparr>)\<rparr>))
     = [example_visit] \<and>
   currentSession
     (endCurrentSession example_env
        (fresh_world\<lparr>currentSession := Some (example_visit\<lparr>endTimestamp := None\<rparr>)\<rparr>))
     = None"
  using C7_endCurrentSession_closes
    [of "fresh_world\<lparr>currentSession := Some (example_visit\<lparr>endTimestamp := None\<rparr>)\<rparr>"
        "example_visit\<lparr>endTimestamp := None\<rparr>" example_env]
  by (simp add: fresh_world_def example_visit_def visit_def example_env_def)

section \<open>The failed-sync queue and the archive\<close>

text \<open>
  Claim C3, as amended. From a queue without repeated start timestamps, any sequence of
  \<^verbatim>\<open>queueFailedSync\<close> calls whose batches each have pairwise distinct start timestamps
  leaves a queue without repeated start timestamps; one call appends, in order, exactly
  the sessions of the batch whose start timestamp is not in the stored queue, and skips
  the others.
\<close>

theorem C3_queue_distinct:
  assumes "distinct (map startTimestamp (failed_of st))"
    and "list_all (\<lambda>b. distinct (map startTimestamp b)) batches"
  shows "distinct (map startTimestamp (failed_of (queue_run batches st))) \<and>
         failed_of (queueFailedSync b st) =
           failed_of st @
             filter (\<lambda>s. startTimestamp s \<notin> startTimestamp ` set (failed_of st)) b"
  using assms by (simp add: distinct_queue_run failed_of_queueFailedSync)

theorem C3_witness:
  "distinct (map startTimestamp (failed_of fresh_world)) \<and>
   list_all (\<lambda>b. distinct (map startTimestamp b)) [[example_visit], [other_visit]] \<and>
   failed_of (queue_run [[example_visit], [other_visit]] fresh_world) = [example_visit] \<and>
   distinct (map startTimestamp
     (failed_of (queue_run [[example_visit], [other_visit]] fresh_world)))"
proof -
  have a: "distinct (map startTimestamp (failed_of fresh_world))"
    by (simp add: failed_of_def fresh_world_def)
  have b: "list_all (\<lambda>b. distinct (map startTimestamp b)) [[example_visit], [other_visit]]"
    by simp
  have c: "failed_of (queue_run [[example_visit], [other_visit]] fresh_world) = [example_visit]"
    by (simp add: failed_of_queueFailedSync)
      (simp add: failed_of_def fresh_world_def example_visit_def other_visit_def visit_def)
  from C3_queue_distinct [OF a b] a b c show ?thesis by simp
qed

text \<open>
  The claim as stated also covers a single batch with a repeated start timestamp. The
  batch is only compared with the stored queue, so both sessions are queued.
\<close>

theorem C3_counterexample:
  "\<not> distinct (map startTimestamp
       (failed_of (queueFailedSync [example_visit, other_visit] fresh_world)))"
  by (simp add: failed_of_queueFailedSync)
    (simp add: failed_of_def fresh_world_def example_visit_def other_visit_def visit_def)

text \<open>
  Claim C5, as amended. The cutoff is \<open>now - retentionDays * 86400\<close>. \<^verbatim>\<open>pruneArchive\<close>
  removes exactly the entries whose \<^verbatim>\<open>archivedAt\<close> and \<^verbatim>\<open>startTimestamp\<close> are both at
  or before the cutoff, keeping the order and number of the others; every entry with a
  timestamp after the cutoff is retained.
\<close>

theorem C5_pruneArchive_boundary:
  "cutoffTimestamp e (Some d) = pruneMs e div 1000 - d * 86400 \<and>
   archive_of (pruneArchive e rd st) =
     filter (\<lambda>s. \<not> both_at_or_before (cutoffTimestamp e rd) s) (archive_of st) \<and>
   filter (\<lambda>s. js_gt (archivedAt s) (cutoffTimestamp e rd) \<or>
                startTimestamp s > cutoffTimestamp e rd) (archive_of (pruneArchive e rd st)) =
     filter (\<lambda>s. js_gt (archivedAt s) (cutoffTimestamp e rd) \<or>
                startTimestamp s > cutoffTimestamp e rd) (archive_of st)"
  by (simp add: archive_of_pruneArchive keep_iff_not_expired cutoffTimestamp_def)

text \<open>
  An entry archived at exactly the cutoff second is not older than the cutoff, and it is
  removed.
\<close>

theorem C5_counterexample:
  "cutoffTimestamp prune_env (Some 30) = 408000 \<and>
   archivedAt boundary_entry = Some 408000 \<and>
   \<not> (408000 < cutoffTimestamp prune_env (Some 30) \<and>
      startTimestamp boundary_entry < cutoffTimestamp prune_env (Some 30)) \<and>
   boundary_entry \<in> set (archive_of archive_world) \<and>
   boundary_entry \<notin> set (archive_of (pruneArchive prune_env (Some 30) archive_world))"
proof -
  have cut: "cutoffTimestamp prune_env (Some 30) = 408000"
    by (simp add: cutoffTimestamp_def prune_env_def example_env_def)
  have before: "archive_of archive_world = [boundary_entry, recent_entry]"
    by (simp add: archive_of_def archive_world_def)
  have after: "archive_of (pruneArchive prune_env (Some 30) archive_world) = [recent_entry]"
    unfolding archive_of_pruneArchive before cut
    by (simp add: boundary_entry_def recent_entry_def visit_def js_gt_def)
  have differ: "boundary_entry \<noteq> recent_entry"
    by (simp add: boundary_entry_def recent_entry_def visit_def)
  show ?thesis
    unfolding cut before after using differ
    by (simp add: boundary_entry_def visit_def)
qed

section \<open>Statistics and messages\<close>

text \<open>
  Claim C9. \<^verbatim>\<open>getStats\<close> returns as \<^verbatim>\<open>allTimeTotal\<close> the sum of the durations of the
  pending sessions, the archived sessions and, when a session is open, its copy closed as
  of now; \<^verbatim>\<open>todayTotal\<close> is the sum over those of them that started at or after local
  midnight.
\<close>

theorem C9_getStats_totals:
  "todayTotal (getStats e st) =
     sum_list (map durationSeconds
       (filter (\<lambda>s. startTimestamp s \<ge> midnightMs e div 1000)
          (pendingSessions st @ archive_of st @ live_copy e st))) \<and>
   allTimeTotal (getStats e st) =
     sum_list (map durationSeconds (pendingSessions st @ archive_of st @ live_copy e st))"
proof -
  have all: "allSessions e st = pendingSessions st @ archive_of st @ live_copy e st"
    by (simp add: allSessions_def live_copy_def getCurrentTimestamp_def Let_def
        split: option.splits)
  show ?thesis
    by (simp add: getStats_def getStartOfToday_def Let_def all foldl_add_duration)
qed

text \<open>
  Claim C10. The \<^verbatim>\<open>clearData\<close> message answers success, empties the pending buffer in
  memory and in storage, removes the archive and the failed-sync queue from storage, and
  changes nothing else: device id, configuration and an open session survive.
\<close>

theorem C10_clearData:
  "fst (onMessage e ClearData st) = Inr SuccessReply \<and>
   snd (onMessage e ClearData st) =
     st\<lparr>pendingSessions := [], stored_pendingSessions := Some [],
        stored_archive := None, stored_failedSyncs := None\<rparr> \<and>
   archive_of (snd (onMessage e ClearData st)) = [] \<and>
   failed_of (snd (onMessage e ClearData st)) = [] \<and>
   deviceId (snd (onMessage e ClearData st)) = deviceId st \<and>
   stored_deviceId (snd (onMessage e ClearData st)) = stored_deviceId st \<and>
   config (snd (onMessage e ClearData st)) = config st \<and>
   stored_config (snd (onMessage e ClearData st)) = stored_config st \<and>
   currentSession (snd (onMessage e ClearData st)) = currentSession st"
  by (simp add: onMessage_def savePendingSessions_def archive_of_def failed_of_def Let_def)

text \<open>
  Claim C8, as amended. \<^verbatim>\<open>saveConfig\<close> merges: the configuration in memory and in
  storage afterwards has, for every key, the value of the message when the message
  defines the key and the previous value otherwise. It equals the configuration of the
  message when that one defines every key.
\<close>

theorem C8_saveConfig_merges:
  assumes "config st = Some old"
  shows "fst (onMessage e (SaveConfig c) st) = Inr SuccessReply \<and>
         config (snd (onMessage e (SaveConfig c) st)) = Some (spread (Some old) c) \<and>
         stored_config (snd (onMessage e (SaveConfig c) st)) = Some (spread (Some old) c) \<and>
         apiEndpoint (spread (Some old) c) =
           (case apiEndpoint c of None \<Rightarrow> apiEndpoint old | Some v \<Rightarrow> Some v) \<and>
         apiKey (spread (Some old) c) =
           (case apiKey c of None \<Rightarrow> apiKey old | Some v \<Rightarrow> Some v) \<and>
         syncIntervalMinutes (spread (Some old) c) =
           (case syncIntervalMinutes c of None \<Rightarrow> syncIntervalMinutes old
            | Some v \<Rightarrow> Some v) \<and>
         userId (spread (Some old) c) =
           (case userId c of None \<Rightarrow> userId old | Some v \<Rightarrow> Some v) \<and>
         deviceProfile (spread (Some old) c) =
           (case deviceProfile c of None \<Rightarrow> deviceProfile old | Some v \<Rightarrow> Some v) \<and>
         idleDetectionEnabled (spread (Some old) c) =
           (case idleDetectionEnabled c of None \<Rightarrow> idleDetectionEnabled old
            | Some v \<Rightarrow> Some v) \<and>
         idleThresholdMinutes (spread (Some old) c) =
           (case idleThresholdMinutes c of None \<Rightarrow> idleThresholdMinutes old
            | Some v \<Rightarrow> Some v) \<and>
         archiveRetentionDays (spread (Some old) c) =
           (case archiveRetentionDays c of None \<Rightarrow> archiveRetentionDays old
            | Some v \<Rightarrow> Some v) \<and>
         (complete_config c \<longrightarrow>
            config (snd (onMessage e (SaveConfig c) st)) = Some c \<and>
            stored_config (snd (onMessage e (SaveConfig c) st)) = Some c)"
proof -
  have saved: "onMessage e (SaveConfig c) st =
      (Inr SuccessReply,
       snd (setupIdleDetection
         (snd (setupSyncAlarm
           (st\<lparr>config := Some (spread (Some old) c),
               stored_config := Some (spread (Some old) c)\<rparr>)))))"
    using assms
    by (simp add: onMessage_def setupSyncAlarm_def setupIdleDetection_def Let_def)
  have kept: "config (snd (setupIdleDetection (snd (setupSyncAlarm w)))) = config w \<and>
              stored_config (snd (setupIdleDetection (snd (setupSyncAlarm w)))) =
                stored_config w" for w
    by (simp add: setupSyncAlarm_def setupIdleDetection_def Let_def split: option.splits)
  have whole: "complete_config c \<Longrightarrow> spread (Some old) c = c"
    by (cases c) (auto simp: spread_def pick_def complete_config_def)
  have keys: "apiEndpoint (spread (Some old) c) =
           (case apiEndpoint c of None \<Rightarrow> apiEndpoint old | Some v \<Rightarrow> Some v)"
         "apiKey (spread (Some old) c) =
           (case apiKey c of None \<Rightarrow> apiKey old | Some v \<Rightarrow> Some v)"
         "syncIntervalMinutes (spread (Some old) c) =
           (case syncIntervalMinutes c of None \<Rightarrow> syncIntervalMinutes old
            | Some v \<Rightarrow> Some v)"
         "userId (spread (Some old) c) =
           (case userId c of None \<Rightarrow> userId old | Some v \<Rightarrow> Some v)"
         "deviceProfile (spread (Some old) c) =
           (case deviceProfile c of None \<Rightarrow> deviceProfile old | Some v \<Rightarrow> Some v)"
         "idleDetectionEnabled (spread (Some old) c) =
           (case idleDetectionEnabled c of None \<Rightarrow> idleDetectionEnabled old
            | Some v \<Rightarrow> Some v)"
         "idleThresholdMinutes (spread (Some old) c) =
           (case idleThresholdMinutes c of None \<Rightarrow> idleThresholdMinutes old
            | Some v \<Rightarrow> Some v)"
         "archiveRetentionDays (spread (Some old) c) =
           (case archiveRetentionDays c of None \<Rightarrow> archiveRetentionDays old
            | Some v \<Rightarrow> Some v)"
    by (simp_all add: spread_def pick_def split: option.splits)
  show ?thesis
    unfolding saved using whole keys by (simp add: kept)
qed

theorem C8_witness:
  "config fresh_world = Some example_config \<and>
   config (snd (onMessage example_env (SaveConfig partial_config) fresh_world)) =
     Some (example_config\<lparr>userId := Some ''other@example.com''\<rparr>) \<and>
   complete_config example_config \<and>
   config (snd (onMessage example_env (SaveConfig example_config)
      (fresh_world\<lparr>config := Some unvalidated_config\<rparr>))) = Some example_config"
proof -
  have a: "config fresh_world = Some example_config"
    by (simp add: fresh_world_def)
  have b: "config (fresh_world\<lparr>config := Some unvalidated_config\<rparr>) = Some unvalidated_config"
    by simp
  have c: "complete_config example_config"
    by (simp add: complete_config_def example_config_def)
  have d: "spread (Some example_config) partial_config =
             example_config\<lparr>userId := Some ''other@example.com''\<rparr>"
    by (simp add: spread_def pick_def partial_config_def no_config_def example_config_def)
  from C8_saveConfig_merges [OF a, of example_env partial_config]
  have one: "config (snd (onMessage example_env (SaveConfig partial_config) fresh_world)) =
               Some (spread (Some example_config) partial_config)"
    by (rule conjunct1 [OF conjunct2])
  from C8_saveConfig_merges [OF b, of example_env example_config] c
  have two: "config (snd (onMessage example_env (SaveConfig example_config)
               (fresh_world\<lparr>config := Some unvalidated_config\<rparr>))) = Some example_config"
    by blast
  show ?thesis
    unfolding one two d using a c by simp
qed

text \<open>
  A message that carries the user identity only: the credential of the previous
  configuration survives the save.
\<close>

theorem C8_counterexample:
  "apiKey partial_config = None \<and>
   map_option apiKey
     (config (snd (onMessage example_env (SaveConfig partial_config) fresh_world))) =
     Some (Some ''anon-key'') \<and>
   config (snd (onMessage example_env (SaveConfig partial_config) fresh_world)) \<noteq>
     Some partial_config \<and>
   stored_config (snd (onMessage example_env (SaveConfig partial_config) fresh_world)) \<noteq>
     Some partial_config"
  by (simp add: onMessage_def setupSyncAlarm_def setupIdleDetection_def Let_def
      spread_def pick_def partial_config_def no_config_def example_config_def fresh_world_def)

section \<open>Failed syncs\<close>

text \<open>
  Claim C2, as amended. When \<^verbatim>\<open>sync\<close> resolves to a result without success, every
  session of the batch is afterwards in the archive (as its stamped copy) or in the
  failed-sync queue, or the queue held before, and still holds, an entry with the same
  start timestamp, for which the session was skipped.
\<close>

theorem C2_failed_sync_keeps_sessions:
  assumes "sync e sessions dev c st = (Inr r, st')" and "\<not> success r"
    and "s \<in> set sessions"
  shows "stamped e s \<in> set (archive_of st') \<or> s \<in> set (failed_of st') \<or>
         (\<exists>q. q \<in> set (failed_of st) \<and> q \<in> set (failed_of st') \<and>
              startTimestamp q = startTimestamp s)"
proof -
  from sync_failure_cases [OF assms(1,2)]
  show ?thesis
  proof
    assume "st' = archiveLocally e sessions st"
    then show ?thesis
      using assms(3) by (simp add: archive_of_archiveLocally)
  next
    assume "st' = queueFailedSync sessions st"
    then show ?thesis
      using assms(3) by (auto simp: failed_of_queueFailedSync)
  qed
qed

theorem C2_witness:
  "fst (sync example_env [example_visit] (Some ''device-1'') (Some example_config)
          pending_world) =
     Inr (no_result\<lparr>success := False, error := Some ''offline'', queued := Some 1\<rparr>) \<and>
   example_visit \<in> set (failed_of (snd
     (sync example_env [example_visit] (Some ''device-1'') (Some example_config)
        pending_world)))"
proof -
  have run: "sync example_env [example_visit] (Some ''device-1'') (Some example_config)
          pending_world =
       (Inr (no_result\<lparr>success := False, error := Some ''offline'', queued := Some 1\<rparr>),
        pending_world\<lparr>stored_failedSyncs := Some [example_visit]\<rparr>)"
    by (simp add: sync_def validateUser_def truthy_def example_config_def example_env_def
        queueFailedSync_def failed_of_def pending_world_def fresh_world_def Let_def)
  have unsuccessful:
    "\<not> success (no_result\<lparr>success := False, error := Some ''offline'', queued := Some 1\<rparr>)"
    by simp
  have member: "example_visit \<in> set [example_visit]"
    by simp
  have absent: "stamped example_env example_visit \<notin> set (archive_of
      (pending_world\<lparr>stored_failedSyncs := Some [example_visit]\<rparr>))"
    by (simp add: archive_of_def pending_world_def fresh_world_def)
  have empty: "failed_of pending_world = []"
    by (simp add: failed_of_def pending_world_def fresh_world_def)
  from C2_failed_sync_keeps_sessions [OF run unsuccessful member] absent empty
  show ?thesis by (simp add: run)
qed

text \<open>
  A session of the batch whose start timestamp is that of another session already queued
  is in neither place afterwards.
\<close>

theorem C2_counterexample:
  "fst (sync example_env [example_visit] (Some ''device-1'') (Some example_config)
          (pending_world\<lparr>stored_failedSyncs := Some [other_visit]\<rparr>)) =
     Inr (no_result\<lparr>success := False, error := Some ''offline'', queued := Some 1\<rparr>) \<and>
   failed_of (snd (sync example_env [example_visit] (Some ''device-1'') (Some example_config)
          (pending_world\<lparr>stored_failedSyncs := Some [other_visit]\<rparr>))) = [other_visit] \<and>
   example_visit \<noteq> other_visit \<and>
   archive_of (snd (sync example_env [example_visit] (Some ''device-1'') (Some example_config)
          (pending_world\<lparr>stored_failedSyncs := Some [other_visit]\<rparr>))) = []"
  by (simp add: sync_def validateUser_def truthy_def example_config_def example_env_def
      queueFailedSync_def failed_of_def archive_of_def pending_world_def fresh_world_def
      example_visit_def other_visit_def visit_def Let_def)

text \<open>
  Claim C4, as amended. With a non-empty batch, a configured endpoint and credential, a
  user identity that validates and no connectivity, \<^verbatim>\<open>sync\<close> returns
  \<^verbatim>\<open>{success: false, error: 'offline', queued: N}\<close> with \<open>N\<close> the length of the batch
  and leaves the pending buffer alone; the failed-sync queue grows by the number of
  sessions of the batch whose start timestamp it did not hold yet, which is \<open>N\<close> when it
  held none of them. \<^verbatim>\<open>performSync\<close> hands over the pending buffer (after closing the open
  session), returns the same result and does not clear the buffer.
\<close>

theorem C4_offline_sync_queues:
  assumes "sessions \<noteq> []" and "truthy (apiEndpoint cfg)" and "truthy (apiKey cfg)"
    and "validateUser e (userId cfg) cfg = Valid" and "\<not> onLine e"
  shows "fst (sync e sessions dev (Some cfg) st) =
           Inr (no_result\<lparr>success := False, error := Some ''offline'',
                            queued := Some (length sessions)\<rparr>) \<and>
         pendingSessions (snd (sync e sessions dev (Some cfg) st)) = pendingSessions st \<and>
         stored_pendingSessions (snd (sync e sessions dev (Some cfg) st)) =
           stored_pendingSessions st \<and>
         length (failed_of (snd (sync e sessions dev (Some cfg) st))) =
           length (failed_of st) +
           length (filter (\<lambda>s. startTimestamp s \<notin> startTimestamp ` set (failed_of st))
                     sessions) \<and>
         (startTimestamp ` set sessions \<inter> startTimestamp ` set (failed_of st) = {} \<longrightarrow>
            length (failed_of (snd (sync e sessions dev (Some cfg) st))) =
              length (failed_of st) + length sessions) \<and>
         (config st = Some cfg \<and> pendingSessions (endCurrentSession e st) = sessions \<longrightarrow>
            fst (performSync e st) =
              Inr (no_result\<lparr>success := False, error := Some ''offline'',
                               queued := Some (length sessions)\<rparr>) \<and>
            pendingSessions (snd (performSync e st)) = sessions)"
proof -
  let ?r = "no_result\<lparr>success := False, error := Some ''offline'',
                       queued := Some (length sessions)\<rparr>"
  have run: "sync e sessions dev (Some cfg) st = (Inr ?r, queueFailedSync sessions st)"
    for dev st
    using assms by (rule sync_offline)
  have all_fresh:
    "filter (\<lambda>s. startTimestamp s \<notin> startTimestamp ` set (failed_of st)) sessions = sessions"
    if "startTimestamp ` set sessions \<inter> startTimestamp ` set (failed_of st) = {}"
    using that by (auto simp: filter_id_conv)
  have perform: "fst (performSync e st) = Inr ?r \<and>
                 pendingSessions (snd (performSync e st)) = sessions"
    if "config st = Some cfg" and "pendingSessions (endCurrentSession e st) = sessions"
  proof -
    have "sync e (pendingSessions (endCurrentSession e st)) (deviceId st) (Some cfg)
            (endCurrentSession e st) =
          (Inr ?r, queueFailedSync sessions (endCurrentSession e st))"
      unfolding that(2) by (rule run)
    moreover have "\<not> success ?r" by simp
    ultimately show ?thesis
      using performSync_failure [OF that(1)] that(2) by blast
  qed
  show ?thesis
    unfolding run using all_fresh perform
    by (simp add: queueFailedSync_frame failed_of_queueFailedSync)
qed

theorem C4_witness:
  "[example_visit] \<noteq> [] \<and> truthy (apiEndpoint example_config) \<and>
   truthy (apiKey example_config) \<and>
   validateUser example_env (userId example_config) example_config = Valid \<and>
   \<not> onLine example_env \<and>
   fst (sync example_env [example_visit] (Some ''device-1'') (Some example_config)
          pending_world) =
     Inr (no_result\<lparr>success := False, error := Some ''offline'', queued := Some 1\<rparr>) \<and>
   length (failed_of (snd (sync example_env [example_visit] (Some ''device-1'')
          (Some example_config) pending_world))) = 1 \<and>
   pendingSessions (snd (performSync example_env pending_world)) = [example_visit]"
proof -
  have a: "[example_visit] \<noteq> []" by simp
  have b: "truthy (apiEndpoint example_config)"
    by (simp add: truthy_def example_config_def)
  have c: "truthy (apiKey example_config)"
    by (simp add: truthy_def example_config_def)
  have d: "validateUser example_env (userId example_config) example_config = Valid"
    by (simp add: validateUser_def truthy_def example_config_def example_env_def)
  have e: "\<not> onLine example_env"
    by (simp add: example_env_def)
  have empty: "failed_of pending_world = []"
    by (simp add: failed_of_def pending_world_def fresh_world_def)
  have cfg: "config pending_world = Some example_config"
    by (simp add: pending_world_def fresh_world_def)
  have pending: "pendingSessions (endCurrentSession example_env pending_world) =
                   [example_visit]"
    by (simp add: endCurrentSession_def pending_world_def fresh_world_def)
  from C4_offline_sync_queues [OF a b c d e, of "Some ''device-1''" pending_world]
  show ?thesis
    using a b c d e empty cfg pending by simp
qed

text \<open>
  A second attempt while still offline: the batch is the same pending buffer, the result
  reports one queued session again, and the queue keeps its length.
\<close>

lemma offline_attempt:
  "performSync example_env pending_world =
     (Inr (no_result\<lparr>success := False, error := Some ''offline'', queued := Some 1\<rparr>),
      pending_world\<lparr>stored_failedSyncs := Some [example_visit]\<rparr>)"
  by (simp add: performSync_def sync_def validateUser_def truthy_def example_config_def
      example_env_def queueFailedSync_def failed_of_def pending_world_def fresh_world_def
      Let_def)

theorem C4_counterexample:
  "snd (performSync example_env pending_world) =
     pending_world\<lparr>stored_failedSyncs := Some [example_visit]\<rparr> \<and>
   fst (sync example_env [example_visit] (Some ''device-1'') (Some example_config)
          (pending_world\<lparr>stored_failedSyncs := Some [example_visit]\<rparr>)) =
     Inr (no_result\<lparr>success := False, error := Some ''offline'', queued := Some 1\<rparr>) \<and>
   length (failed_of (pending_world\<lparr>stored_failedSyncs := Some [example_visit]\<rparr>)) = 1 \<and>
   length (failed_of (snd
     (sync example_env [example_visit] (Some ''device-1'') (Some example_config)
        (pending_world\<lparr>stored_failedSyncs := Some [example_visit]\<rparr>)))) = 1"
proof -
  have again: "sync example_env [example_visit] (Some ''device-1'') (Some example_config)
          (pending_world\<lparr>stored_failedSyncs := Some [example_visit]\<rparr>) =
     (Inr (no_result\<lparr>success := False, error := Some ''offline'', queued := Some 1\<rparr>),
      pending_world\<lparr>stored_failedSyncs := Some [example_visit]\<rparr>)"
    by (simp add: sync_def validateUser_def truthy_def example_config_def
        example_env_def queueFailedSync_def failed_of_def pending_world_def fresh_world_def
        Let_def)
  show ?thesis
    unfolding again offline_attempt by (simp add: failed_of_def)
qed

section \<open>Archiving after a failed validation\<close>

lemma unvalidated_attempt:
  "performSync example_env (unvalidated_world\<lparr>stored_archive := a\<rparr>) =
     (Inr (no_result\<lparr>success := False, error := Some ''User ID not set'',
                      archived := Some 1\<rparr>),
      unvalidated_world\<lparr>stored_archive :=
        Some ((case a of None \<Rightarrow> [] | Some xs \<Rightarrow> xs) @ [stamped example_env example_visit])\<rparr>)"
  by (simp add: performSync_def sync_def validateUser_def truthy_def example_config_def
      unvalidated_config_def unvalidated_world_def example_env_def archiveLocally_def
      archive_of_def stamped_def pending_world_def fresh_world_def Let_def)

text \<open>
  Claim C1 says that no session is appended to the archive twice, whatever sequence of
  \<^verbatim>\<open>performSync\<close> and \<^verbatim>\<open>sync\<close> calls runs. When the user validation fails, \<^verbatim>\<open>sync\<close>
  archives the batch and reports failure, so \<^verbatim>\<open>performSync\<close> keeps the pending
  buffer: after one call the session is in the buffer and in the archive, and after a
  second call the archive holds it twice.
\<close>

theorem C1_validation_failure_archives_twice:
  "fst (performSync example_env unvalidated_world) =
     Inr (no_result\<lparr>success := False, error := Some ''User ID not set'',
                     archived := Some 1\<rparr>) \<and>
   pendingSessions (snd (performSync example_env unvalidated_world)) = [example_visit] \<and>
   archive_of (snd (performSync example_env unvalidated_world)) =
     [stamped example_env example_visit] \<and>
   archive_of (snd (performSync example_env (snd (performSync example_env unvalidated_world))))
     = [stamped example_env example_visit, stamped example_env example_visit] \<and>
   \<not> distinct (map session_key
       (archive_of (snd (performSync example_env
          (snd (performSync example_env unvalidated_world))))))"
proof -
  have first: "performSync example_env unvalidated_world =
     (Inr (no_result\<lparr>success := False, error := Some ''User ID not set'',
                      archived := Some 1\<rparr>),
      unvalidated_world\<lparr>stored_archive := Some [stamped example_env example_visit]\<rparr>)"
    using unvalidated_attempt [of "stored_archive unvalidated_world"]
    by (simp add: unvalidated_world_def pending_world_def fresh_world_def)
  have second: "performSync example_env
       (unvalidated_world\<lparr>stored_archive := Some [stamped example_env example_visit]\<rparr>) =
     (Inr (no_result\<lparr>success := False, error := Some ''User ID not set'',
                      archived := Some 1\<rparr>),
      unvalidated_world\<lparr>stored_archive :=
        Some [stamped example_env example_visit, stamped example_env example_visit]\<rparr>)"
    using unvalidated_attempt [of "Some [stamped example_env example_visit]"] by simp
  show ?thesis
    unfolding first snd_conv fst_conv second
    by (simp add: archive_of_def unvalidated_world_def pending_world_def)
qed

end
